theory Spec2Isabelle
  imports Complex_Main "HOL-Library.Sublist"
begin

section \<open>Python values used by the relay\<close>

text \<open>
  Parsed JSON, as \<open>json.loads\<close> and Flask's \<open>get_json\<close> return it and as \<open>jsonify\<close>
  takes it. A dict is an association list looked up with \<open>map_of\<close>. Timestamps and JSON
  floats are real numbers.
\<close>

datatype json =
    JNull
  | JBool bool
  | JInt int
  | JFloat real
  | JStr string
  | JArr "json list"
  | JObj "(string \<times> json) list"

text \<open>Python truthiness (\<open>if x:\<close>) of a parsed JSON value.\<close>

fun truthy :: "json \<Rightarrow> bool" where
  "truthy JNull = False"
| "truthy (JBool b) = b"
| "truthy (JInt i) = (i \<noteq> 0)"
| "truthy (JFloat x) = (x \<noteq> 0)"
| "truthy (JStr s) = (s \<noteq> [])"
| "truthy (JArr xs) = (xs \<noteq> [])"
| "truthy (JObj kvs) = (kvs \<noteq> [])"

fun py_type_name :: "json \<Rightarrow> string" where
  "py_type_name JNull = ''NoneType''"
| "py_type_name (JBool b) = ''bool''"
| "py_type_name (JInt i) = ''int''"
| "py_type_name (JFloat x) = ''float''"
| "py_type_name (JStr s) = ''str''"
| "py_type_name (JArr xs) = ''list''"
| "py_type_name (JObj kvs) = ''dict''"

text \<open>
  \<open>d.get(key, default)\<close>: only a dict has the method; on any other value the attribute
  lookup raises AttributeError, whose message is the \<open>Inl\<close> value.
\<close>

definition quoted :: "string \<Rightarrow> string" where
  "quoted s = CHR 0x27 # s @ [CHR 0x27]"

fun dict_get :: "json \<Rightarrow> string \<Rightarrow> json \<Rightarrow> string + json" where
  "dict_get (JObj kvs) k dflt = Inr (case map_of kvs k of None \<Rightarrow> dflt | Some v \<Rightarrow> v)"
| "dict_get v k dflt =
     Inl (quoted (py_type_name v) @ '' object has no attribute '' @ quoted ''get'')"

text \<open>
  \<open>s.replace(old, new)\<close>: every non-overlapping occurrence of \<open>old\<close>, scanning from the
  left; an empty \<open>old\<close> matches before every character and at the end.
\<close>

function str_replace :: "string \<Rightarrow> string \<Rightarrow> string \<Rightarrow> string" where
  "str_replace old new [] = (if old = [] then new else [])"
| "str_replace old new (c # cs) =
     (if old = [] then new @ concat (map (\<lambda>x. x # new) (c # cs))
      else if prefix old (c # cs) then new @ str_replace old new (drop (length old) (c # cs))
      else c # str_replace old new cs)"
  by pat_completeness auto
termination
  by (relation "measure (\<lambda>(old, new, s). length s)") (auto simp: neq_Nil_conv)

text \<open>The f-string \<open>f"{x}"\<close> of a value that is a string or None.\<close>

fun fstr :: "string option \<Rightarrow> string" where
  "fstr None = ''None''"
| "fstr (Some s) = s"

text \<open>
  HTTP headers: werkzeug's and requests' \<open>headers.get(name, default)\<close> compare header
  names without regard to case and return the first match.
\<close>

definition lower_char :: "char \<Rightarrow> char" where
  "lower_char c =
     (case map_of (zip ''ABCDEFGHIJKLMNOPQRSTUVWXYZ'' ''abcdefghijklmnopqrstuvwxyz'') c of
        None \<Rightarrow> c | Some d \<Rightarrow> d)"

definition lower :: "string \<Rightarrow> string" where
  "lower s = map lower_char s"

type_synonym headers = "(string \<times> string) list"

definition headers_get :: "headers \<Rightarrow> string \<Rightarrow> string option" where
  "headers_get hs name = map_of (map (\<lambda>(k, v). (lower k, v)) hs) (lower name)"


section \<open>The relay's state and its surroundings\<close>

text \<open>
  \<open>_token_cache\<close> and \<open>DATABRICKS_HOST\<close> are the module's globals; \<open>run_proxy\<close> binds
  \<open>DATABRICKS_HOST\<close> to the workspace before the server starts. A cached token of
  \<open>None\<close> is Python's \<open>None\<close>.
\<close>

record token_cache =
  access_token :: "string option"
  expiry :: real

definition initial_token_cache :: token_cache where
  "initial_token_cache = \<lparr>access_token = None, expiry = 0\<rparr>"

record relay =
  DATABRICKS_HOST :: string
  cache :: token_cache

text \<open>
  What \<open>databricks auth token\<close> printed, after \<open>json.loads\<close>: not a dict, or a dict whose
  \<open>access_token\<close> is a string or absent (the token is a bearer string; \<open>None\<close> is a
  missing or null field) and whose \<open>expiry\<close> is any JSON value or absent.
\<close>

datatype broker_data = NotADict | Dict "string option" "json option"

text \<open>
  \<open>subprocess.run\<close> raises (the 10 second timeout, a missing executable) or completes
  with a return code; \<open>json.loads\<close> of the output raises (\<open>None\<close>) or gives the data.
\<close>

datatype run_result = RunRaises | Completed int "broker_data option"

text \<open>
  \<open>datetime.fromisoformat(s).timestamp()\<close>: a ValueError, another exception, or the
  timestamp.
\<close>

datatype iso_result = IsoValueError | IsoOtherError | IsoTimestamp real

text \<open>What the body of a caller's request is to \<open>request.get_json()\<close>: it raises, or parses.\<close>

record request =
  req_headers :: headers
  req_json :: "string + json"

record outbound =
  out_url :: string
  out_headers :: headers
  out_json :: json
  out_stream :: json
  out_timeout :: nat

text \<open>
  The gateway's answer: \<open>iter_content\<close> yields \<open>chunks\<close> in arrival order and
  \<open>r.content\<close> is all of them. \<open>r.text\<close> is what the requests library decodes the
  content to (with the charset of the headers or a guessed one, undecodable bytes
  replaced); that decoding is the library's, so the text is a field of its own.
\<close>

record upstream_response =
  status_code :: nat
  resp_headers :: headers
  chunks :: "string list"
  resp_text :: string

definition content :: "upstream_response \<Rightarrow> string" where
  "content r = concat (chunks r)"

datatype post_result =
    Timeout
  | RequestException string
  | OtherException string
  | Responded upstream_response

text \<open>
  Everything outside the process that one request reads. \<open>int_to_float\<close> is Python's
  \<open>float\<close> on an integer: the nearest double, or an OverflowError (\<open>None\<close>) for an
  integer too large for a double.
\<close>

record world =
  environ :: "string \<Rightarrow> string option"
  now :: real
  subprocess_run :: "string list \<Rightarrow> run_result"
  fromisoformat_timestamp :: "string \<Rightarrow> iso_result"
  int_to_float :: "int \<Rightarrow> real option"
  http_post :: "outbound \<Rightarrow> post_result"

text \<open>A Flask response: \<open>jsonify\<close> of a value, raw bytes, or a generator of chunks.\<close>

datatype body = JsonBody json | RawBody string | StreamBody "string list"

datatype content_kind = Mimetype string | ContentType string

record response =
  status :: nat
  kind :: content_kind
  payload :: body

definition jsonify :: "json \<Rightarrow> nat \<Rightarrow> response" where
  "jsonify v st = \<lparr>status = st, kind = Mimetype ''application/json'', payload = JsonBody v\<rparr>"


section \<open>Credential provider (\<open>proxy.get_databricks_token\<close>)\<close>

definition is_truthy :: "string option \<Rightarrow> bool" where
  "is_truthy t = (case t of None \<Rightarrow> False | Some s \<Rightarrow> s \<noteq> [])"

definition broker_argv :: "string \<Rightarrow> string list" where
  "broker_argv host = [''databricks'', ''auth'', ''token'', ''--host'', host]"

text \<open>
  The expiry of a fresh token, from \<open>expiry_raw\<close>: a string is read as ISO-8601 after
  \<open>Z\<close> is replaced, and a ValueError there gives one hour from now; any other value is
  \<open>float(expiry_raw) if expiry_raw else now + 3600\<close>, where \<open>float\<close> of a list or a dict
  raises TypeError and \<open>float\<close> of too large an integer raises OverflowError. \<open>None\<close> is
  an exception that leaves the \<open>try\<close> block.
\<close>

fun parse_expiry :: "world \<Rightarrow> json \<Rightarrow> real option" where
  "parse_expiry w (JStr s) =
     (case fromisoformat_timestamp w (str_replace ''Z'' ''+00:00'' s) of
        IsoValueError \<Rightarrow> Some (now w + 3600)
      | IsoOtherError \<Rightarrow> None
      | IsoTimestamp t \<Rightarrow> Some t)"
| "parse_expiry w JNull = Some (now w + 3600)"
| "parse_expiry w (JBool b) = Some (if b then 1 else now w + 3600)"
| "parse_expiry w (JInt i) = (if i \<noteq> 0 then int_to_float w i else Some (now w + 3600))"
| "parse_expiry w (JFloat x) = Some (if x \<noteq> 0 then x else now w + 3600)"
| "parse_expiry w (JArr xs) = (if xs \<noteq> [] then None else Some (now w + 3600))"
| "parse_expiry w (JObj kvs) = (if kvs \<noteq> [] then None else Some (now w + 3600))"

text \<open>
  The \<open>try\<close> block of \<open>get_databricks_token\<close>: it raises, it falls through without a
  token, or it reaches the two cache assignments with a token and its expiry.
\<close>

datatype refreshed = Raised | NoToken | Fresh string real

definition refresh :: "world \<Rightarrow> string \<Rightarrow> refreshed" where
  "refresh w host =
     (case subprocess_run w (broker_argv host) of
        RunRaises \<Rightarrow> Raised
      | Completed returncode out \<Rightarrow>
          if returncode = 0 then
            (case out of
               None \<Rightarrow> Raised
             | Some NotADict \<Rightarrow> Raised
             | Some (Dict None expiry_field) \<Rightarrow> NoToken
             | Some (Dict (Some token) expiry_field) \<Rightarrow>
                 if token \<noteq> [] then
                   (case parse_expiry w (case expiry_field of None \<Rightarrow> JInt 0 | Some v \<Rightarrow> v) of
                      None \<Rightarrow> Raised
                    | Some e \<Rightarrow> Fresh token e)
                 else NoToken)
          else NoToken)"

text \<open>
  What a call returns, the globals after it, and the broker command lines it ran.
\<close>

record provided =
  credential :: "string option"
  relay_after :: relay
  broker_calls :: "string list list"

definition get_databricks_token :: "world \<Rightarrow> relay \<Rightarrow> provided" where
  "get_databricks_token w r =
     (let static_token = environ w ''DATABRICKS_TOKEN'' in
      if is_truthy static_token then
        \<lparr>credential = static_token, relay_after = r, broker_calls = []\<rparr>
      else if is_truthy (access_token (cache r)) \<and> now w < expiry (cache r) - 60 then
        \<lparr>credential = access_token (cache r), relay_after = r, broker_calls = []\<rparr>
      else
        (case refresh w (DATABRICKS_HOST r) of
           Fresh token e \<Rightarrow>
             \<lparr>credential = Some token,
              relay_after = r\<lparr>cache := \<lparr>access_token = Some token, expiry = e\<rparr>\<rparr>,
              broker_calls = [broker_argv (DATABRICKS_HOST r)]\<rparr>
         | _ \<Rightarrow>
             \<lparr>credential = None, relay_after = r,
              broker_calls = [broker_argv (DATABRICKS_HOST r)]\<rparr>))"


section \<open>Routes (\<open>proxy.health\<close>, \<open>proxy.chat_completions\<close>)\<close>

definition health :: "relay \<Rightarrow> response" where
  "health r = jsonify (JObj [(''status'', JStr ''ok'')]) 200"

text \<open>The header dict the handler builds for the gateway, in the order it is written.\<close>

definition outbound_headers :: "headers \<Rightarrow> string \<Rightarrow> headers" where
  "outbound_headers inbound databricks_token =
     (let ANTHROPIC_TOKEN =
            str_replace ''Bearer '' ''''
              (case headers_get inbound ''Authorization'' of None \<Rightarrow> '''' | Some v \<Rightarrow> v);
          beta_headers = headers_get inbound ''Anthropic-Beta''
      in [(''Authorization'', ''Bearer '' @ databricks_token),
          (''x-anthropic-api-key'', ANTHROPIC_TOKEN),
          (''anthropic-beta'', fstr beta_headers),
          (''x-databricks-traffic-id'', ''testenv://liteswap/claude_max''),
          (''Content-Type'', ''application/json'')])"

definition error_body :: "string \<Rightarrow> string \<Rightarrow> json" where
  "error_body message type =
     JObj [(''error'', JObj [(''message'', JStr message), (''type'', JStr type)])]"

definition databricks_error_body :: "string \<Rightarrow> nat \<Rightarrow> json" where
  "databricks_error_body message code =
     JObj [(''error'', JObj [(''message'', JStr message), (''type'', JStr ''databricks_error''),
                             (''code'', JInt (int code))])]"

definition no_token_message :: string where
  "no_token_message =
     ''No Databricks token available. Set DATABRICKS_TOKEN or run `databricks auth login`.''"

text \<open>The response once the gateway has answered with \<open>r\<close> (the code after the POST).\<close>

definition relay_response :: "json \<Rightarrow> upstream_response \<Rightarrow> response" where
  "relay_response is_streaming r =
     (if status_code r \<noteq> 200 then
        jsonify (databricks_error_body (resp_text r) (status_code r)) (status_code r)
      else if truthy is_streaming then
        \<lparr>status = 200, kind = Mimetype ''text/event-stream'',
         payload = StreamBody (filter (\<lambda>chunk. chunk \<noteq> []) (chunks r))\<rparr>
      else
        \<lparr>status = status_code r,
         kind = ContentType (case headers_get (resp_headers r) ''Content-Type'' of
                               None \<Rightarrow> ''application/json'' | Some c \<Rightarrow> c),
         payload = RawBody (content r)\<rparr>)"

text \<open>
  What one call of the handler does: its response, the globals after it, the broker
  command lines it ran and the requests it posted to the gateway.
\<close>

record handled =
  reply :: response
  relay_then :: relay
  broker_ran :: "string list list"
  posted :: "outbound list"

definition proxy_error :: "string \<Rightarrow> relay \<Rightarrow> handled" where
  "proxy_error e r =
     \<lparr>reply = jsonify (error_body e ''proxy_error'') 500, relay_then = r,
      broker_ran = [], posted = []\<rparr>"

definition forward :: "world \<Rightarrow> provided \<Rightarrow> request \<Rightarrow> json \<Rightarrow> json \<Rightarrow> string \<Rightarrow> handled" where
  "forward w p req openai_request is_streaming databricks_token =
     (let out = \<lparr>out_url = DATABRICKS_HOST (relay_after p)
                           @ ''/serving-endpoints/anthropic/v1/messages'',
                 out_headers = outbound_headers (req_headers req) databricks_token,
                 out_json = openai_request,
                 out_stream = is_streaming,
                 out_timeout = 180\<rparr>
      in \<lparr>reply =
            (case http_post w out of
               Timeout \<Rightarrow> jsonify (error_body ''Request timed out'' ''timeout_error'') 504
             | RequestException e \<Rightarrow> jsonify (error_body e ''connection_error'') 500
             | OtherException e \<Rightarrow> jsonify (error_body e ''proxy_error'') 500
             | Responded resp \<Rightarrow> relay_response is_streaming resp),
          relay_then = relay_after p, broker_ran = broker_calls p, posted = [out]\<rparr>)"

definition chat_completions :: "world \<Rightarrow> relay \<Rightarrow> request \<Rightarrow> handled" where
  "chat_completions w r req =
     (case req_json req of
        Inl e \<Rightarrow> proxy_error e r
      | Inr openai_request \<Rightarrow>
          (case dict_get openai_request ''stream'' (JBool False) of
             Inl e \<Rightarrow> proxy_error e r
           | Inr is_streaming \<Rightarrow>
               (let p = get_databricks_token w r in
                case credential p of
                  Some databricks_token \<Rightarrow>
                    if databricks_token \<noteq> [] then
                      forward w p req openai_request is_streaming databricks_token
                    else
                      \<lparr>reply = jsonify (error_body no_token_message ''config_error'') 500,
                       relay_then = relay_after p, broker_ran = broker_calls p, posted = []\<rparr>
                | None \<Rightarrow>
                    \<lparr>reply = jsonify (error_body no_token_message ''config_error'') 500,
                     relay_then = relay_after p, broker_ran = broker_calls p, posted = []\<rparr>)))"


section \<open>Instance discovery (\<open>cli.find_proxy_port\<close>)\<close>

text \<open>
  The machine the launcher runs on: \<open>urlopen\<close> of a port's health route followed by
  \<open>json.loads\<close> of what it read (either may raise), whether a test socket can be bound
  to a port, and the port the operating system assigns to a bind of port 0 (\<open>None\<close>
  when that bind raises OSError).
\<close>

datatype probe_result = ProbeRaises | ProbeJson json

record machine =
  urlopen_json :: "nat \<Rightarrow> probe_result"
  can_bind :: "nat \<Rightarrow> bool"
  bind_any :: "nat option"

definition PROXY_PORT :: nat where
  "PROXY_PORT = 8000"

text \<open>
  \<open>data.get("status") == "ok" and data.get("workspace") == workspace\<close>; \<open>None\<close> when
  \<open>get\<close> raises.
\<close>

definition same_workspace :: "json \<Rightarrow> string \<Rightarrow> bool option" where
  "same_workspace data workspace =
     (case dict_get data ''status'' JNull of
        Inl e \<Rightarrow> None
      | Inr st \<Rightarrow>
          if st = JStr ''ok'' then
            (case dict_get data ''workspace'' JNull of
               Inl e \<Rightarrow> None
             | Inr ws \<Rightarrow> Some (ws = JStr workspace))
          else Some False)"

datatype os_error = OSError

definition find_proxy_port :: "machine \<Rightarrow> string \<Rightarrow> os_error + nat \<times> bool" where
  "find_proxy_port m workspace =
     (if (case urlopen_json m PROXY_PORT of
            ProbeRaises \<Rightarrow> False
          | ProbeJson data \<Rightarrow> same_workspace data workspace = Some True)
      then Inr (PROXY_PORT, True)
      else if can_bind m PROXY_PORT then Inr (PROXY_PORT, False)
      else (case bind_any m of None \<Rightarrow> Inl OSError | Some port \<Rightarrow> Inr (port, False)))"

text \<open>
  Modelled from the spec: the health route of the relay that the launcher of
  \<open>databricks_coding_agent\<close> starts (\<open>databricks_coding_agent/proxy.py\<close>, which is not
  among the sources); section 6 gives its body as
  \<open>{"status":"ok","workspace": <identity>}\<close>.
\<close>

definition healthy_instance_body :: "string \<Rightarrow> json" where
  "healthy_instance_body W = JObj [(''status'', JStr ''ok''), (''workspace'', JStr W)]"


section \<open>Observations and example inputs\<close>

text \<open>A field of a response body that is a JSON object.\<close>

definition body_field :: "body \<Rightarrow> string \<Rightarrow> json option" where
  "body_field b k = (case b of JsonBody (JObj kvs) \<Rightarrow> map_of kvs k | _ \<Rightarrow> None)"

text \<open>
  The bearer value of an \<open>Authorization\<close> header in the words of the specification: the
  header value with its \<open>Bearer \<close> prefix removed.
\<close>

definition bearer_value :: "string \<Rightarrow> string" where
  "bearer_value v = (if prefix ''Bearer '' v then drop (length ''Bearer '') v else v)"

text \<open>
  A refresh that, in the words of the specification, fails, times out or returns no
  token: the broker command raises (its timeout included), exits with a return code other
  than 0, prints something that is not a JSON object, or prints an object without a
  token.
\<close>

fun refresh_failed :: "run_result \<Rightarrow> bool" where
  "refresh_failed RunRaises = True"
| "refresh_failed (Completed returncode None) = True"
| "refresh_failed (Completed returncode (Some NotADict)) = True"
| "refresh_failed (Completed returncode (Some (Dict token e))) =
     (returncode \<noteq> 0 \<or> \<not> is_truthy token)"

text \<open>
  Surroundings for concrete runs: the override variable (if set), the clock at 1000, what
  the broker command does and what the gateway answers. The integers of these runs are
  small, so that their conversion to a double is exact.
\<close>

definition world_with :: "string option \<Rightarrow> run_result \<Rightarrow> post_result \<Rightarrow> world" where
  "world_with override broker_out gateway =
     \<lparr>environ = (\<lambda>k. if k = ''DATABRICKS_TOKEN'' then override else None),
      now = 1000,
      subprocess_run = (\<lambda>argv. broker_out),
      fromisoformat_timestamp = (\<lambda>s. IsoValueError),
      int_to_float = (\<lambda>i. Some (real_of_int i)),
      http_post = (\<lambda>out. gateway)\<rparr>"

definition relay_with :: "string option \<Rightarrow> real \<Rightarrow> relay" where
  "relay_with token e =
     \<lparr>DATABRICKS_HOST = ''https://w.example'', cache = \<lparr>access_token = token, expiry = e\<rparr>\<rparr>"

definition request_with :: "headers \<Rightarrow> json \<Rightarrow> request" where
  "request_with hs v = \<lparr>req_headers = hs, req_json = Inr v\<rparr>"

definition rate_limited :: upstream_response where
  \<open>rate_limited = \<lparr>status_code = 429, resp_headers = [(''Content-Type'', ''application/json'')],
                    chunks = [''{"error":"rate limited"}''],
                    resp_text = ''{"error":"rate limited"}''\<rparr>\<close>

definition unavailable :: upstream_response where
  "unavailable = \<lparr>status_code = 503, resp_headers = [], chunks = [''try '', ''later''],
                   resp_text = ''try later''\<rparr>"


definition fresh_token :: run_result where
  "fresh_token = Completed 0 (Some (Dict (Some ''tok-new'') (Some (JInt 5000))))"

text \<open>
  The request the handler posts for a caller's headers, body and stream flag when the
  credential is \<open>dapi-1\<close> and the relay is bound to \<open>https://w.example\<close>, written out.
\<close>

definition posted_with :: "string \<Rightarrow> string \<Rightarrow> json \<Rightarrow> json \<Rightarrow> outbound" where
  "posted_with key beta v flag =
     \<lparr>out_url = ''https://w.example/serving-endpoints/anthropic/v1/messages'',
      out_headers = [(''Authorization'', ''Bearer dapi-1''),
                     (''x-anthropic-api-key'', key),
                     (''anthropic-beta'', beta),
                     (''x-databricks-traffic-id'', ''testenv://liteswap/claude_max''),
                     (''Content-Type'', ''application/json'')],
      out_json = v, out_stream = flag, out_timeout = 180\<rparr>"

text \<open>
  A machine for concrete runs of the discovery: what the probe of the preferred port
  gives, whether that port is free, and the port the operating system assigns.
\<close>

definition machine_with :: "probe_result \<Rightarrow> bool \<Rightarrow> nat option \<Rightarrow> machine" where
  "machine_with probed free assigned =
     \<lparr>urlopen_json = (\<lambda>port. if port = PROXY_PORT then probed else ProbeRaises),
      can_bind = (\<lambda>port. port = PROXY_PORT \<and> free),
      bind_any = assigned\<rparr>"


section \<open>Facts about the model\<close>

lemma world_with_simps [simp]:
  "environ (world_with ov b g) ''DATABRICKS_TOKEN'' = ov"
  "now (world_with ov b g) = 1000"
  "subprocess_run (world_with ov b g) argv = b"
  "int_to_float (world_with ov b g) i = Some (real_of_int i)"
  "http_post (world_with ov b g) out = g"
  by (simp_all add: world_with_def)

lemma relay_with_simps [simp]:
  "DATABRICKS_HOST (relay_with token e) = ''https://w.example''"
  "access_token (cache (relay_with token e)) = token"
  "expiry (cache (relay_with token e)) = e"
  by (simp_all add: relay_with_def)

lemma request_with_simps [simp]:
  "req_headers (request_with hs v) = hs"
  "req_json (request_with hs v) = Inr v"
  by (simp_all add: request_with_def)

lemma machine_with_simps [simp]:
  "urlopen_json (machine_with probed free assigned) PROXY_PORT = probed"
  "can_bind (machine_with probed free assigned) PROXY_PORT = free"
  "bind_any (machine_with probed free assigned) = assigned"
  by (simp_all add: machine_with_def)

text \<open>The provider never returns an empty credential.\<close>

lemma credential_nonempty:
  "credential (get_databricks_token w r) = Some t \<Longrightarrow> t \<noteq> []"
  by (auto simp: get_databricks_token_def Let_def is_truthy_def refresh_def
      split: if_splits refreshed.splits run_result.splits option.splits broker_data.splits)

text \<open>With a JSON object as body and a credential, the handler goes on to the gateway.\<close>

lemma chat_completions_forward:
  assumes "req_json req = Inr v" and "dict_get v ''stream'' (JBool False) = Inr flag"
    and "credential (get_databricks_token w r) = Some tok"
  shows "chat_completions w r req = forward w (get_databricks_token w r) req v flag tok"
  using assms credential_nonempty [OF assms(3)]
  by (simp add: chat_completions_def Let_def)

text \<open>Whenever the handler posted a request, its reply is made from the answer to it.\<close>

lemma posted_reply:
  assumes "posted (chat_completions w r req) = [out]"
  shows "reply (chat_completions w r req) =
           (case http_post w out of
              Timeout \<Rightarrow> jsonify (error_body ''Request timed out'' ''timeout_error'') 504
            | RequestException e \<Rightarrow> jsonify (error_body e ''connection_error'') 500
            | OtherException e \<Rightarrow> jsonify (error_body e ''proxy_error'') 500
            | Responded resp \<Rightarrow> relay_response (out_stream out) resp)"
  using assms
  by (auto simp: chat_completions_def proxy_error_def forward_def Let_def
      split: sum.splits option.splits if_splits post_result.splits)



text \<open>A concrete run with the override \<open>dapi-1\<close>: what is posted and what comes back.\<close>

lemma override_run:
  "chat_completions (world_with (Some ''dapi-1'') b g) (relay_with token e)
     (request_with hs (JObj kvs)) =
   forward (world_with (Some ''dapi-1'') b g)
     \<lparr>credential = Some ''dapi-1'', relay_after = relay_with token e, broker_calls = []\<rparr>
     (request_with hs (JObj kvs)) (JObj kvs)
     (case map_of kvs ''stream'' of None \<Rightarrow> JBool False | Some f \<Rightarrow> f) ''dapi-1''"
  by (simp add: chat_completions_def get_databricks_token_def is_truthy_def)

text \<open>\<open>replace\<close> leaves a string alone in which \<open>old\<close> does not occur.\<close>

lemma str_replace_absent:
  assumes "old \<noteq> []" and "\<forall>i. \<not> prefix old (drop i s)"
  shows "str_replace old new s = s"
  using assms
proof (induction s)
  case Nil
  then show ?case by simp
next
  case (Cons c cs)
  have "\<not> prefix old (c # cs)"
    using Cons.prems(2) [rule_format, of 0] by simp
  moreover have "\<forall>i. \<not> prefix old (drop i cs)"
  proof
    fix i
    show "\<not> prefix old (drop i cs)"
      using Cons.prems(2) [rule_format, of "Suc i"] by simp
  qed
  ultimately show ?case
    using Cons by simp
qed

text \<open>
  What the transformer does get right: the gateway credential always goes out as the
  bearer, a key in which \<open>Bearer \<close> does not occur again goes out as it came, and a beta
  header that is present is copied.
\<close>

lemma outbound_authorization:
  "map_of (outbound_headers hs tok) ''Authorization'' = Some (''Bearer '' @ tok)"
  by (simp add: outbound_headers_def Let_def)

lemma bearer_key_forwarded:
  assumes "headers_get hs ''Authorization'' = Some (''Bearer '' @ k)"
    and "\<forall>i. \<not> prefix ''Bearer '' (drop i k)"
  shows "map_of (outbound_headers hs tok) ''x-anthropic-api-key'' = Some k"
  using assms(1) str_replace_absent [OF _ assms(2), of "''''"]
  by (simp add: outbound_headers_def Let_def)

lemma beta_header_copied:
  "headers_get hs ''Anthropic-Beta'' = Some b \<Longrightarrow>
   map_of (outbound_headers hs tok) ''anthropic-beta'' = Some b"
  by (simp add: outbound_headers_def Let_def)

text \<open>
  A relay that answers the probe with the body of \<open>proxy.health\<close> is never reused by
  the discovery, whatever the workspace.
\<close>

lemma health_body_not_reused:
  assumes "payload (health r) = JsonBody data" and "urlopen_json m PROXY_PORT = ProbeJson data"
  shows "find_proxy_port m W \<noteq> Inr (PROXY_PORT, True)"
  using assms
  by (auto simp: health_def jsonify_def find_proxy_port_def same_workspace_def
      split: option.splits)


section \<open>The health route\<close>

text \<open>
  C1, as stated: for a relay bound to workspace W, the health route answers 200 with a
  JSON body whose field "status" is "ok" and whose field "workspace" is W. The body of
  \<open>proxy.health\<close> has no field "workspace": for the relay bound to
  \<open>https://w.example\<close> that field is not the workspace.
\<close>

theorem C1_health_workspace_counterexample:
  "body_field (payload (health (relay_with None 0))) ''workspace''
     \<noteq> Some (JStr (DATABRICKS_HOST (relay_with None 0)))"
  by (simp add: health_def jsonify_def body_field_def)

text \<open>
  C1, amended: for every relay instance, whatever workspace it is bound to, the health
  route answers 200 with the JSON body \<open>{"status": "ok"}\<close>: the field "status" is "ok"
  and there is no field "workspace".
\<close>

theorem C1_health_status_ok:
  "status (health r) = 200
   \<and> payload (health r) = JsonBody (JObj [(''status'', JStr ''ok'')])
   \<and> body_field (payload (health r)) ''status'' = Some (JStr ''ok'')
   \<and> body_field (payload (health r)) ''workspace'' = None"
  by (simp add: health_def jsonify_def body_field_def)


section \<open>Answers of the gateway\<close>

text \<open>
  C2, as stated: an upstream answer with a non-2xx status reaches the caller with the
  same status and the upstream body unchanged; status 429 with body
  \<open>{"error":"rate limited"}\<close> gives the caller 429 with that exact body. The caller
  does get 429, but the body is a JSON error object that carries the upstream text in its
  "message": it is neither the upstream bytes nor the upstream JSON.
\<close>

theorem C2_rate_limited_counterexample:
  \<open>status (reply (chat_completions
        (world_with (Some ''dapi-1'') RunRaises (Responded rate_limited))
        (relay_with None 0) (request_with [] (JObj [])))) = 429
   \<and> payload (reply (chat_completions
        (world_with (Some ''dapi-1'') RunRaises (Responded rate_limited))
        (relay_with None 0) (request_with [] (JObj []))))
      = JsonBody (JObj [(''error'',
          JObj [(''message'', JStr ''{"error":"rate limited"}''),
                (''type'', JStr ''databricks_error''), (''code'', JInt 429)])])
   \<and> payload (reply (chat_completions
        (world_with (Some ''dapi-1'') RunRaises (Responded rate_limited))
        (relay_with None 0) (request_with [] (JObj []))))
      \<noteq> RawBody (content rate_limited)
   \<and> body_field (payload (reply (chat_completions
        (world_with (Some ''dapi-1'') RunRaises (Responded rate_limited))
        (relay_with None 0) (request_with [] (JObj []))))) ''error''
      \<noteq> Some (JStr ''rate limited'')\<close>
  by (simp add: override_run forward_def relay_response_def jsonify_def rate_limited_def
      databricks_error_body_def content_def body_field_def)

text \<open>
  C2, amended: for every upstream answer with a status other than 200 (every non-2xx
  status among them), the proxied route returns that same status, with the JSON body
  \<open>{"error": {"message": <upstream body as text>, "type": "databricks_error",
  "code": <status>}}\<close>.
\<close>

theorem C2_upstream_error_wrapped:
  assumes "posted (chat_completions w r req) = [out]"
    and "http_post w out = Responded resp"
    and "status_code resp \<noteq> 200"
  shows "status (reply (chat_completions w r req)) = status_code resp
         \<and> payload (reply (chat_completions w r req)) =
             JsonBody (JObj [(''error'',
               JObj [(''message'', JStr (resp_text resp)),
                     (''type'', JStr ''databricks_error''),
                     (''code'', JInt (int (status_code resp)))])])"
  using posted_reply [OF assms(1)] assms(2,3)
  by (simp add: relay_response_def jsonify_def databricks_error_body_def)

text \<open>
  The amended C2 at a 503 answer to a caller that sent a key and a beta header.
\<close>

theorem C2_upstream_error_wrapped_witness:
  "posted (chat_completions (world_with (Some ''dapi-1'') RunRaises (Responded unavailable))
      (relay_with None 0)
      (request_with [(''authorization'', ''Bearer sk-1''), (''Anthropic-Beta'', ''b1'')] (JObj [])))
     = [posted_with ''sk-1'' ''b1'' (JObj []) (JBool False)]
   \<and> http_post (world_with (Some ''dapi-1'') RunRaises (Responded unavailable))
        (posted_with ''sk-1'' ''b1'' (JObj []) (JBool False)) = Responded unavailable
   \<and> status_code unavailable \<noteq> 200
   \<and> status (reply (chat_completions
        (world_with (Some ''dapi-1'') RunRaises (Responded unavailable)) (relay_with None 0)
        (request_with [(''authorization'', ''Bearer sk-1''), (''Anthropic-Beta'', ''b1'')] (JObj []))))
      = 503
   \<and> payload (reply (chat_completions
        (world_with (Some ''dapi-1'') RunRaises (Responded unavailable)) (relay_with None 0)
        (request_with [(''authorization'', ''Bearer sk-1''), (''Anthropic-Beta'', ''b1'')] (JObj []))))
      = JsonBody (JObj [(''error'',
          JObj [(''message'', JStr ''try later''), (''type'', JStr ''databricks_error''),
                (''code'', JInt 503)])])"
proof -
  have p: "posted (chat_completions (world_with (Some ''dapi-1'') RunRaises (Responded unavailable))
      (relay_with None 0)
      (request_with [(''authorization'', ''Bearer sk-1''), (''Anthropic-Beta'', ''b1'')] (JObj [])))
     = [posted_with ''sk-1'' ''b1'' (JObj []) (JBool False)]"
    by (simp add: override_run forward_def posted_with_def outbound_headers_def headers_get_def
        lower_def lower_char_def)
  have a: "http_post (world_with (Some ''dapi-1'') RunRaises (Responded unavailable))
        (posted_with ''sk-1'' ''b1'' (JObj []) (JBool False)) = Responded unavailable"
    by simp
  have s: "status_code unavailable \<noteq> 200"
    by (simp add: unavailable_def)
  show ?thesis
    using C2_upstream_error_wrapped [OF p a s] p s
    by (simp add: unavailable_def)
qed





section \<open>The outbound headers\<close>

text \<open>
  C3: the outbound \<open>x-anthropic-api-key\<close> is the inbound \<open>Authorization\<close> value with
  its \<open>Bearer \<close> prefix removed, for all inputs. The code removes every occurrence of
  \<open>Bearer \<close> with \<open>replace\<close>, not the prefix: for the header value
  \<open>Bearer k1 Bearer k2\<close> it sends \<open>k1 k2\<close>, where the bearer value is
  \<open>k1 Bearer k2\<close>.
\<close>

theorem C3_bearer_replace_divergence:
  "map_of (outbound_headers [(''Authorization'', ''Bearer k1 Bearer k2'')] ''dapi-1'')
      ''x-anthropic-api-key'' = Some ''k1 k2''
   \<and> bearer_value ''Bearer k1 Bearer k2'' = ''k1 Bearer k2''"
  by (simp add: outbound_headers_def headers_get_def lower_def lower_char_def bearer_value_def)

text \<open>
  C9: the beta header is copied when present and left out when the caller did not send
  it. The code always sends \<open>anthropic-beta\<close>: for a request without the header it
  formats Python's \<open>None\<close> and sends the text \<open>None\<close>.
\<close>

theorem C9_absent_beta_header_divergence:
  "headers_get [(''Authorization'', ''Bearer sk-1'')] ''Anthropic-Beta'' = None
   \<and> map_of (outbound_headers [(''Authorization'', ''Bearer sk-1'')] ''dapi-1'')
        ''anthropic-beta'' = Some ''None''"
  by (simp add: outbound_headers_def headers_get_def lower_def lower_char_def)

text \<open>
  C10: a request without any \<open>Authorization\<close> header is not turned away for that: with
  a JSON object as body and a credential from the provider, the handler posts one
  request to the gateway, with the caller's body, the credential as bearer and an empty
  \<open>x-anthropic-api-key\<close>, and replies with what comes of that request.
\<close>

theorem C10_missing_authorization_forwarded:
  assumes "headers_get (req_headers req) ''Authorization'' = None"
    and "req_json req = Inr (JObj kvs)"
    and "credential (get_databricks_token w r) = Some tok"
  shows "\<exists>out. posted (chat_completions w r req) = [out]
           \<and> out_json out = JObj kvs
           \<and> map_of (out_headers out) ''x-anthropic-api-key'' = Some ''''
           \<and> map_of (out_headers out) ''Authorization'' = Some (''Bearer '' @ tok)
           \<and> reply (chat_completions w r req) =
               (case http_post w out of
                  Timeout \<Rightarrow> jsonify (error_body ''Request timed out'' ''timeout_error'') 504
                | RequestException e \<Rightarrow> jsonify (error_body e ''connection_error'') 500
                | OtherException e \<Rightarrow> jsonify (error_body e ''proxy_error'') 500
                | Responded resp \<Rightarrow> relay_response (out_stream out) resp)"
proof -
  have cc: "chat_completions w r req =
          forward w (get_databricks_token w r) req (JObj kvs)
            (case map_of kvs ''stream'' of None \<Rightarrow> JBool False | Some f \<Rightarrow> f) tok"
    using assms(2,3) by (intro chat_completions_forward) simp_all
  show ?thesis
    unfolding cc using assms(1)
    by (simp add: forward_def Let_def outbound_headers_def split: post_result.splits)
qed

text \<open>
  C10 at a request that has only a beta header, answered by the gateway with 200 and a
  JSON document, which the caller receives.
\<close>

theorem C10_missing_authorization_forwarded_witness:
  "headers_get [(''Anthropic-Beta'', ''b1'')] ''Authorization'' = None
   \<and> credential (get_databricks_token
        (world_with (Some ''dapi-1'') RunRaises
           (Responded \<lparr>status_code = 200, resp_headers = [], chunks = [''{}''],
                        resp_text = ''{}''\<rparr>))
        (relay_with None 0)) = Some ''dapi-1''
   \<and> posted (chat_completions
        (world_with (Some ''dapi-1'') RunRaises
           (Responded \<lparr>status_code = 200, resp_headers = [], chunks = [''{}''],
                        resp_text = ''{}''\<rparr>))
        (relay_with None 0) (request_with [(''Anthropic-Beta'', ''b1'')] (JObj [])))
      = [posted_with '''' ''b1'' (JObj []) (JBool False)]
   \<and> reply (chat_completions
        (world_with (Some ''dapi-1'') RunRaises
           (Responded \<lparr>status_code = 200, resp_headers = [], chunks = [''{}''],
                        resp_text = ''{}''\<rparr>))
        (relay_with None 0) (request_with [(''Anthropic-Beta'', ''b1'')] (JObj [])))
      = \<lparr>status = 200, kind = ContentType ''application/json'', payload = RawBody ''{}''\<rparr>"
proof -
  have h: "headers_get [(''Anthropic-Beta'', ''b1'')] ''Authorization'' = None"
    by (simp add: headers_get_def lower_def lower_char_def)
  have c: "credential (get_databricks_token
        (world_with (Some ''dapi-1'') RunRaises
           (Responded \<lparr>status_code = 200, resp_headers = [], chunks = [''{}''],
                        resp_text = ''{}''\<rparr>))
        (relay_with None 0)) = Some ''dapi-1''"
    by (simp add: get_databricks_token_def is_truthy_def)
  have p: "posted (chat_completions
        (world_with (Some ''dapi-1'') RunRaises
           (Responded \<lparr>status_code = 200, resp_headers = [], chunks = [''{}''],
                        resp_text = ''{}''\<rparr>))
        (relay_with None 0) (request_with [(''Anthropic-Beta'', ''b1'')] (JObj [])))
      = [posted_with '''' ''b1'' (JObj []) (JBool False)]"
    by (simp add: override_run forward_def posted_with_def outbound_headers_def headers_get_def
        lower_def lower_char_def)
  show ?thesis
    using C10_missing_authorization_forwarded [of "request_with [(''Anthropic-Beta'', ''b1'')] (JObj [])"
        "[]" _ _ "''dapi-1''", OF _ _ c] h c p
    by (simp add: relay_response_def content_def posted_with_def headers_get_def
        lower_def lower_char_def)
qed


section \<open>The credential provider\<close>

text \<open>
  C5: when no override is in force and the cache holds a credential, the provider
  answers from the cache, without running the broker, exactly when the expiry is more
  than 60 seconds away. With 60 seconds or less to the expiry (the boundary included) it
  runs the broker once, and what it returns is what that refresh gave, not the cache.
\<close>

theorem C5_cache_safety_margin:
  assumes "\<not> is_truthy (environ w ''DATABRICKS_TOKEN'')"
    and "access_token (cache r) = Some t" and "t \<noteq> []"
  shows "(60 < expiry (cache r) - now w \<longrightarrow>
            get_databricks_token w r =
              \<lparr>credential = Some t, relay_after = r, broker_calls = []\<rparr>)
       \<and> (expiry (cache r) - now w \<le> 60 \<longrightarrow>
            broker_calls (get_databricks_token w r) = [broker_argv (DATABRICKS_HOST r)]
            \<and> credential (get_databricks_token w r) =
                (case refresh w (DATABRICKS_HOST r) of
                   Fresh token e \<Rightarrow> Some token | _ \<Rightarrow> None))
       \<and> (broker_calls (get_databricks_token w r) = [] \<longleftrightarrow> 60 < expiry (cache r) - now w)"
  using assms
  by (auto simp: get_databricks_token_def is_truthy_def Let_def split: refreshed.splits)

text \<open>
  C5 at the clock 1000 with a cached \<open>tok-old\<close>: expiring at 1060, exactly on the
  boundary, it is refreshed to \<open>tok-new\<close>; expiring at 1061 it is served.
\<close>

theorem C5_cache_safety_margin_witness:
  "\<not> is_truthy (environ (world_with None fresh_token Timeout) ''DATABRICKS_TOKEN'')
   \<and> expiry (cache (relay_with (Some ''tok-old'') 1060)) - now (world_with None fresh_token Timeout) = 60
   \<and> credential (get_databricks_token (world_with None fresh_token Timeout)
        (relay_with (Some ''tok-old'') 1060)) = Some ''tok-new''
   \<and> broker_calls (get_databricks_token (world_with None fresh_token Timeout)
        (relay_with (Some ''tok-old'') 1060))
      = [[''databricks'', ''auth'', ''token'', ''--host'', ''https://w.example'']]
   \<and> expiry (cache (relay_with (Some ''tok-old'') 1061)) - now (world_with None fresh_token Timeout) = 61
   \<and> get_databricks_token (world_with None fresh_token Timeout) (relay_with (Some ''tok-old'') 1061)
      = \<lparr>credential = Some ''tok-old'', relay_after = relay_with (Some ''tok-old'') 1061,
         broker_calls = []\<rparr>"
  using C5_cache_safety_margin [of "world_with None fresh_token Timeout"
          "relay_with (Some ''tok-old'') 1060" "''tok-old''"]
        C5_cache_safety_margin [of "world_with None fresh_token Timeout"
          "relay_with (Some ''tok-old'') 1061" "''tok-old''"]
  by (simp add: is_truthy_def refresh_def fresh_token_def broker_argv_def)

text \<open>
  C6, as stated: whenever the override variable is set, the provider returns it and
  never runs the broker. A variable that is set to the empty string is not taken: the
  provider runs the broker and returns the token from there.
\<close>

theorem C6_empty_override_counterexample:
  "environ (world_with (Some '''') fresh_token Timeout) ''DATABRICKS_TOKEN'' = Some ''''
   \<and> credential (get_databricks_token (world_with (Some '''') fresh_token Timeout)
        (relay_with None 0)) = Some ''tok-new''
   \<and> broker_calls (get_databricks_token (world_with (Some '''') fresh_token Timeout)
        (relay_with None 0))
      = [[''databricks'', ''auth'', ''token'', ''--host'', ''https://w.example'']]"
  by (simp add: get_databricks_token_def is_truthy_def refresh_def fresh_token_def
      broker_argv_def)

text \<open>
  C6, amended: whenever the override variable is set to a non-empty value, the provider
  returns that value, runs no broker command and leaves the cache as it was, whatever
  the cache holds.
\<close>

theorem C6_override_returned:
  assumes "environ w ''DATABRICKS_TOKEN'' = Some t" and "t \<noteq> []"
  shows "get_databricks_token w r = \<lparr>credential = Some t, relay_after = r, broker_calls = []\<rparr>"
  using assms by (simp add: get_databricks_token_def is_truthy_def)

text \<open>The amended C6 with the override \<open>dapi-1\<close> and an expired \<open>tok-old\<close> in the cache.\<close>

theorem C6_override_returned_witness:
  "environ (world_with (Some ''dapi-1'') fresh_token Timeout) ''DATABRICKS_TOKEN'' = Some ''dapi-1''
   \<and> ''dapi-1'' \<noteq> ''''
   \<and> get_databricks_token (world_with (Some ''dapi-1'') fresh_token Timeout)
        (relay_with (Some ''tok-old'') 0)
      = \<lparr>credential = Some ''dapi-1'', relay_after = relay_with (Some ''tok-old'') 0,
         broker_calls = []\<rparr>"
  using C6_override_returned [of "world_with (Some ''dapi-1'') fresh_token Timeout" "''dapi-1''"
          "relay_with (Some ''tok-old'') 0"]
  by simp

text \<open>
  C7: in every call in which the refresh ran and failed, timed out or gave no token, the
  provider returns None (it is a total function: every exception of the \<open>try\<close> block
  ends there) and leaves the cache alone; and the proxied route, for a body that is a
  JSON object, answers that with status 500 and an error of type \<open>config_error\<close>,
  without posting anything to the gateway.
\<close>

theorem C7_refresh_failure_unavailable:
  assumes "broker_calls (get_databricks_token w r) \<noteq> []"
    and "refresh_failed (subprocess_run w (broker_argv (DATABRICKS_HOST r)))"
  shows "credential (get_databricks_token w r) = None
       \<and> relay_after (get_databricks_token w r) = r
       \<and> (\<forall>kvs. req_json req = Inr (JObj kvs) \<longrightarrow>
             status (reply (chat_completions w r req)) = 500
             \<and> body_field (payload (reply (chat_completions w r req))) ''error''
                 = Some (JObj [(''message'', JStr no_token_message),
                               (''type'', JStr ''config_error'')])
             \<and> posted (chat_completions w r req) = [])"
proof -
  have "refresh w (DATABRICKS_HOST r) = Raised \<or> refresh w (DATABRICKS_HOST r) = NoToken"
    using assms(2)
    by (cases "subprocess_run w (broker_argv (DATABRICKS_HOST r))" rule: refresh_failed.cases)
       (auto simp: refresh_def is_truthy_def split: option.splits)
  with assms(1) have "credential (get_databricks_token w r) = None"
      and "relay_after (get_databricks_token w r) = r"
    by (auto simp: get_databricks_token_def Let_def split: if_splits)
  then show ?thesis
    by (simp add: chat_completions_def Let_def jsonify_def error_body_def body_field_def)
qed

text \<open>
  C7 with an empty cache and no override, once with a broker command that raises and
  once with one that exits with 0 and prints an object without a token.
\<close>

theorem C7_refresh_failure_unavailable_witness:
  "broker_calls (get_databricks_token (world_with None RunRaises Timeout) (relay_with None 0))
     = [[''databricks'', ''auth'', ''token'', ''--host'', ''https://w.example'']]
   \<and> refresh_failed (subprocess_run (world_with None RunRaises Timeout)
        (broker_argv (DATABRICKS_HOST (relay_with None 0))))
   \<and> credential (get_databricks_token (world_with None RunRaises Timeout) (relay_with None 0))
      = None
   \<and> status (reply (chat_completions (world_with None RunRaises Timeout) (relay_with None 0)
        (request_with [(''Authorization'', ''Bearer sk-1'')] (JObj [])))) = 500
   \<and> body_field (payload (reply (chat_completions (world_with None RunRaises Timeout)
        (relay_with None 0) (request_with [(''Authorization'', ''Bearer sk-1'')] (JObj [])))))
        ''error''
      = Some (JObj [(''message'', JStr no_token_message), (''type'', JStr ''config_error'')])
   \<and> refresh_failed (subprocess_run
        (world_with None (Completed 0 (Some (Dict None None))) Timeout)
        (broker_argv (DATABRICKS_HOST (relay_with None 0))))
   \<and> credential (get_databricks_token
        (world_with None (Completed 0 (Some (Dict None None))) Timeout) (relay_with None 0))
      = None"
proof -
  have b: "broker_calls (get_databricks_token (world_with None broker_out Timeout)
             (relay_with None 0))
           = [[''databricks'', ''auth'', ''token'', ''--host'', ''https://w.example'']]"
    for broker_out
    by (simp add: get_databricks_token_def is_truthy_def broker_argv_def
        split: refreshed.splits)
  show ?thesis
    using C7_refresh_failure_unavailable [of "world_with None RunRaises Timeout"
            "relay_with None 0" "request_with [(''Authorization'', ''Bearer sk-1'')] (JObj [])"]
          C7_refresh_failure_unavailable [of
            "world_with None (Completed 0 (Some (Dict None None))) Timeout"
            "relay_with None 0" "request_with [] (JObj [])"]
          b
    by (simp add: is_truthy_def)
qed


section \<open>Instance discovery\<close>

text \<open>
  C4: \<open>find_proxy_port\<close> for workspace W, the preferred port being \<open>PROXY_PORT\<close>.
  If the probe of the preferred port gives a JSON object whose "status" is "ok" and whose
  "workspace" is W, the result is the preferred port with True. If the probe fails (it
  raises, or what answers is not healthy or not for W) and the test bind of the preferred
  port succeeds, the result is the preferred port with False. In particular, with a
  healthy instance for W on the preferred port, the discovery for W gives the preferred
  port with True, and the discovery for any other workspace gives a port with False: the
  preferred port if it can be bound, and otherwise the port that the operating system
  assigns.
\<close>

theorem C4_find_proxy_port:
  "(urlopen_json m PROXY_PORT = ProbeJson (JObj kvs)
      \<and> map_of kvs ''status'' = Some (JStr ''ok'') \<and> map_of kvs ''workspace'' = Some (JStr W)
      \<longrightarrow> find_proxy_port m W = Inr (PROXY_PORT, True))
   \<and> ((urlopen_json m PROXY_PORT = ProbeRaises
        \<or> (\<exists>data. urlopen_json m PROXY_PORT = ProbeJson data
              \<and> (dict_get data ''status'' JNull \<noteq> Inr (JStr ''ok'')
                  \<or> dict_get data ''workspace'' JNull \<noteq> Inr (JStr W))))
      \<and> can_bind m PROXY_PORT
      \<longrightarrow> find_proxy_port m W = Inr (PROXY_PORT, False))
   \<and> (urlopen_json m PROXY_PORT = ProbeJson (healthy_instance_body W)
      \<longrightarrow> find_proxy_port m W = Inr (PROXY_PORT, True)
        \<and> (\<forall>W'. W' \<noteq> W \<longrightarrow>
              (can_bind m PROXY_PORT \<longrightarrow> find_proxy_port m W' = Inr (PROXY_PORT, False))
              \<and> (\<not> can_bind m PROXY_PORT \<longrightarrow>
                   (\<forall>port. bind_any m = Some port \<longrightarrow>
                      find_proxy_port m W' = Inr (port, False)))))"
  by (auto simp: find_proxy_port_def same_workspace_def healthy_instance_body_def
      split: probe_result.splits sum.splits option.splits if_splits)

text \<open>
  C4 on three machines: a healthy instance for \<open>https://w.example\<close> holds port 8000
  and the operating system assigns 49152; nothing listens and port 8000 is free; and a
  healthy instance answers although port 8000 can be bound.
\<close>

theorem C4_find_proxy_port_witness:
  "urlopen_json (machine_with (ProbeJson (healthy_instance_body ''https://w.example'')) False (Some 49152))
      PROXY_PORT = ProbeJson (healthy_instance_body ''https://w.example'')
   \<and> \<not> can_bind (machine_with (ProbeJson (healthy_instance_body ''https://w.example'')) False (Some 49152))
        PROXY_PORT
   \<and> find_proxy_port (machine_with (ProbeJson (healthy_instance_body ''https://w.example'')) False (Some 49152))
        ''https://w.example'' = Inr (PROXY_PORT, True)
   \<and> find_proxy_port (machine_with (ProbeJson (healthy_instance_body ''https://w.example'')) False (Some 49152))
        ''https://other.example'' = Inr (49152, False)
   \<and> urlopen_json (machine_with ProbeRaises True None) PROXY_PORT = ProbeRaises
   \<and> can_bind (machine_with ProbeRaises True None) PROXY_PORT
   \<and> find_proxy_port (machine_with ProbeRaises True None) ''https://w.example''
      = Inr (PROXY_PORT, False)
   \<and> find_proxy_port (machine_with (ProbeJson (healthy_instance_body ''https://w.example'')) True None)
        ''https://other.example'' = Inr (PROXY_PORT, False)"
  using C4_find_proxy_port [of
          "machine_with (ProbeJson (healthy_instance_body ''https://w.example'')) False (Some 49152)"
          "[(''status'', JStr ''ok''), (''workspace'', JStr ''https://w.example'')]"
          "''https://w.example''"]
        C4_find_proxy_port [of "machine_with ProbeRaises True None" "[]" "''https://w.example''"]
        C4_find_proxy_port [of
          "machine_with (ProbeJson (healthy_instance_body ''https://w.example'')) True None"
          "[]" "''https://w.example''"]
  by (simp add: healthy_instance_body_def)

end
